theory Spec2Isabelle
  imports Main
begin

section \<open>Tensor buffer lifecycle: \<^verbatim>\<open>src/core/tensor.cpp\<close>\<close>

text \<open>
  The file defines the two dtype sizing functions and four member functions of
  \<^verbatim>\<open>Tensor\<close>: \<^verbatim>\<open>prepare_data\<close> (the spec's materialize), \<^verbatim>\<open>recall_data\<close>
  (release), \<^verbatim>\<open>set_shared_memory\<close> (bind_external_memory) and the destructor.
  The device, the weights file, the CUDA runtime and the C++ heap are collaborators
  that the file only calls. Each call is recorded as an event of a trace; what a
  collaborator answers is a function of the trace so far and of the arguments, so a
  theorem quantified over these functions holds for every allocator, file and copy
  engine.
\<close>

subsection \<open>Types and constants declared in headers outside \<^verbatim>\<open>tensor.cpp\<close>\<close>

text \<open>A raw address; \<open>0\<close> is the null pointer.\<close>

type_synonym ptr = nat

abbreviation nullptr :: ptr where
  "nullptr \<equiv> 0"

text \<open>
  The eight enumerators that the two switches name. \<open>Other v\<close> is any other value of
  the enum type; it takes the \<^verbatim>\<open>default\<close> branch.
\<close>

datatype DType =
    Float32 | Int32 | Float16 | Int16 | Float8 | Uint8 | Int8 | Int4 | Other nat

datatype TensorState = OutSide | Own

text \<open>The code only asks whether the kind is \<open>GPU\<close>; \<open>CPU\<close> is every other kind.\<close>

datatype KernelType = GPU | CPU

datatype cudaError_t = cudaSuccess | cudaErrorCode nat

text \<open>\<^verbatim>\<open>INFER_ASSERT(cond, msg)\<close> with a false condition: the fatal assertion.\<close>

datatype error = AssertionFailed string

text \<open>
  \<^verbatim>\<open>kernel_define.h\<close> is not among the sources. The block element counts
  \<^verbatim>\<open>QK40\<close>, \<^verbatim>\<open>QK80\<close> and the sizes of the two block structs are parameters.
\<close>

record kernel_define =
  QK40 :: nat
  QK80 :: nat
  sizeof_BlockQ40 :: nat
  sizeof_BlockQ80 :: nat

text \<open>\<^verbatim>\<open>sizeof(float)\<close>, as the \<open>Float32\<close> case of \<^verbatim>\<open>dtype_in_byte\<close> has it.\<close>

definition sizeof_float :: nat where
  "sizeof_float = 4"

subsection \<open>Calls to the collaborators\<close>

datatype event =
    Allocate nat ptr  \<comment> \<open>\<^verbatim>\<open>m_device->allocate(len)\<close> returned the handle\<close>
  | FreeDevice ptr  \<comment> \<open>\<^verbatim>\<open>m_device->free_device(p)\<close>\<close>
  | GetMmapData nat nat ptr  \<comment> \<open>\<^verbatim>\<open>m_file->get_mmap_data(len, offset)\<close> returned the pointer\<close>
  | ReadData ptr nat nat  \<comment> \<open>\<^verbatim>\<open>m_file->read_data(dst, len, offset)\<close>\<close>
  | CudaMemcpy ptr ptr nat cudaError_t  \<comment> \<open>\<^verbatim>\<open>cudaMemcpy(dst, src, count, HostToDevice)\<close> and its result\<close>
  | Printf  \<comment> \<open>the line \<^verbatim>\<open>CUDA Memcpy Error: ...\<close>\<close>
  | NewArray nat ptr  \<comment> \<open>\<^verbatim>\<open>new float[n]\<close>: the bytes requested and the pointer returned\<close>
  | DeleteArray ptr  \<comment> \<open>\<^verbatim>\<open>delete[] p\<close>\<close>

record Device =
  device_type :: KernelType
  allocate :: "event list \<Rightarrow> nat \<Rightarrow> ptr"

record InputFile =
  enable_mmap :: bool
  get_mmap_data :: "event list \<Rightarrow> nat \<Rightarrow> nat \<Rightarrow> ptr"

record Runtime =
  cudaMemcpy :: "event list \<Rightarrow> ptr \<Rightarrow> ptr \<Rightarrow> nat \<Rightarrow> cudaError_t"
  new_float :: "event list \<Rightarrow> nat \<Rightarrow> ptr"

text \<open>
  The members of \<^verbatim>\<open>Tensor\<close> that \<^verbatim>\<open>tensor.cpp\<close> reads or writes. The member function
  \<^verbatim>\<open>length_in_byte()\<close> is defined in \<^verbatim>\<open>tensor.h\<close>, outside the sources; none of the
  four operations changes what it depends on, so its value is a field.
\<close>

record Tensor =
  m_data :: ptr
  m_state :: TensorState
  m_shared :: bool
  m_device :: Device
  m_file :: "InputFile option"
  m_file_offset :: nat
  length_in_byte :: nat

text \<open>The device allocations and the device frees of a trace, in order.\<close>

definition allocate_calls :: "event list \<Rightarrow> (nat \<times> ptr) list" where
  "allocate_calls tr = concat (map (\<lambda>e. case e of Allocate n p \<Rightarrow> [(n, p)] | _ \<Rightarrow> []) tr)"

definition free_calls :: "event list \<Rightarrow> ptr list" where
  "free_calls tr = concat (map (\<lambda>e. case e of FreeDevice p \<Rightarrow> [p] | _ \<Rightarrow> []) tr)"

subsection \<open>The dtype sizing functions\<close>

text \<open>
  \<^verbatim>\<open>dtype_in_byte\<close> returns a C++ \<^verbatim>\<open>float\<close>; every value it returns is a small
  natural number, which \<^verbatim>\<open>float\<close> holds exactly.
\<close>

fun dtype_in_byte :: "kernel_define \<Rightarrow> DType \<Rightarrow> error + nat" where
  "dtype_in_byte kd Float32 = Inr 4"
| "dtype_in_byte kd Int32 = Inr 4"
| "dtype_in_byte kd Float16 = Inr 2"
| "dtype_in_byte kd Int16 = Inr 2"
| "dtype_in_byte kd Float8 = Inr 1"
| "dtype_in_byte kd Uint8 = Inr 1"
| "dtype_in_byte kd Int8 = Inr (sizeof_BlockQ80 kd)"
| "dtype_in_byte kd Int4 = Inr (sizeof_BlockQ40 kd)"
| "dtype_in_byte kd (Other v) = Inl (AssertionFailed ''No support data type.'')"

fun dtype_block_size :: "kernel_define \<Rightarrow> DType \<Rightarrow> error + nat" where
  "dtype_block_size kd Float32 = Inr 1"
| "dtype_block_size kd Int32 = Inr 1"
| "dtype_block_size kd Float16 = Inr 1"
| "dtype_block_size kd Int16 = Inr 1"
| "dtype_block_size kd Float8 = Inr 1"
| "dtype_block_size kd Uint8 = Inr 1"
| "dtype_block_size kd Int8 = Inr (QK80 kd)"
| "dtype_block_size kd Int4 = Inr (QK40 kd)"
| "dtype_block_size kd (Other v) = Inl (AssertionFailed ''No support data type.'')"

text \<open>The product \<open>byte_size(dtype) * block_count(dtype)\<close> of the two results.\<close>

definition sizing_product :: "kernel_define \<Rightarrow> DType \<Rightarrow> error + nat" where
  "sizing_product kd d =
     (case dtype_in_byte kd d of
        Inl e \<Rightarrow> Inl e
      | Inr b \<Rightarrow> (case dtype_block_size kd d of Inl e \<Rightarrow> Inl e | Inr n \<Rightarrow> Inr (b * n)))"

fun is_dense :: "DType \<Rightarrow> bool" where
  "is_dense Float32 = True"
| "is_dense Int32 = True"
| "is_dense Float16 = True"
| "is_dense Int16 = True"
| "is_dense Float8 = True"
| "is_dense Uint8 = True"
| "is_dense Int8 = False"
| "is_dense Int4 = False"
| "is_dense (Other v) = False"

text \<open>
  Modelled from the spec: \<^verbatim>\<open>length_in_byte()\<close> is defined in \<^verbatim>\<open>tensor.h\<close>, which is
  not among the sources. The spec's data model gives the buffer length as
  \<open>element_count * byte_size\<close> for a dense dtype and
  \<open>ceil(element_count / N) * block_byte_size\<close> for a block dtype.
\<close>

definition spec_length_in_byte :: "kernel_define \<Rightarrow> DType \<Rightarrow> nat \<Rightarrow> error + nat" where
  "spec_length_in_byte kd d n =
     (case dtype_in_byte kd d of
        Inl e \<Rightarrow> Inl e
      | Inr b \<Rightarrow>
          (case dtype_block_size kd d of
             Inl e \<Rightarrow> Inl e
           | Inr k \<Rightarrow> Inr (if is_dense d then n * b else ((n + k - 1) div k) * b)))"

subsection \<open>\<^verbatim>\<open>Tensor::prepare_data\<close>\<close>

definition prepare_data ::
  "Runtime \<Rightarrow> Tensor \<Rightarrow> event list \<Rightarrow> TensorState \<times> Tensor \<times> event list" where
  "prepare_data rt t tr =
     (let len = length_in_byte t;
          (t1, tr1) =
            (if m_data t = nullptr \<and> m_state t = OutSide then
               (case m_file t of
                  Some f \<Rightarrow>
                    if enable_mmap f then
                      if device_type (m_device t) = GPU then
                        let temp_ptr = get_mmap_data f tr len (m_file_offset t);
                            tr_a = tr @ [GetMmapData len (m_file_offset t) temp_ptr];
                            d = allocate (m_device t) tr_a len;
                            tr_b = tr_a @ [Allocate len d];
                            err = cudaMemcpy rt tr_b d temp_ptr len;
                            tr_c = tr_b @ [CudaMemcpy d temp_ptr len err]
                        in (t\<lparr>m_data := d\<rparr>,
                            if err \<noteq> cudaSuccess then tr_c @ [Printf] else tr_c)
                      else
                        let d = get_mmap_data f tr len (m_file_offset t)
                        in (t\<lparr>m_data := d\<rparr>, tr @ [GetMmapData len (m_file_offset t) d])
                    else if m_data t = nullptr then
                      if device_type (m_device t) = GPU then
                        let d = allocate (m_device t) tr len;
                            tr_a = tr @ [Allocate len d];
                            temp_ptr = new_float rt tr_a len;
                            tr_b = tr_a @ [NewArray (len * sizeof_float) temp_ptr];
                            tr_c = tr_b @ [ReadData temp_ptr len (m_file_offset t)];
                            err = cudaMemcpy rt tr_c d temp_ptr len;
                            tr_d = tr_c @ [CudaMemcpy d temp_ptr len err]
                        in (t\<lparr>m_data := d\<rparr>, tr_d @ [DeleteArray temp_ptr])
                      else
                        let d = allocate (m_device t) tr len
                        in (t\<lparr>m_data := d\<rparr>,
                            tr @ [Allocate len d, ReadData d len (m_file_offset t)])
                    else (t, tr)
                | None \<Rightarrow>
                    let d = allocate (m_device t) tr len
                    in (t\<lparr>m_data := d\<rparr>, tr @ [Allocate len d]))
             else (t, tr));
          t2 = t1\<lparr>m_state := Own\<rparr>
      in (m_state t2, t2, tr1))"

subsection \<open>\<^verbatim>\<open>Tensor::recall_data\<close>\<close>

definition recall_data :: "Tensor \<Rightarrow> event list \<Rightarrow> TensorState \<times> Tensor \<times> event list" where
  "recall_data t tr =
     (if m_shared t then (m_state t, t, tr)
      else
        let (t1, tr1) =
              (if m_file t = None \<and> m_data t \<noteq> nullptr \<and> m_state t = Own
               then (t\<lparr>m_data := nullptr\<rparr>, tr @ [FreeDevice (m_data t)])
               else (t, tr));
            t2 = t1\<lparr>m_state := OutSide\<rparr>
        in (m_state t2, t2, tr1))"

subsection \<open>\<^verbatim>\<open>Tensor::set_shared_memory\<close>\<close>

definition set_shared_memory :: "Tensor \<Rightarrow> ptr \<Rightarrow> nat \<Rightarrow> error + Tensor" where
  "set_shared_memory t data sz =
     (if data = nullptr \<or> sz \<ge> length_in_byte t
      then Inr (t\<lparr>m_data := data, m_state := Own, m_shared := True\<rparr>)
      else Inl (AssertionFailed ''the memory set to tensor is not enough''))"

subsection \<open>\<^verbatim>\<open>Tensor::~Tensor\<close>\<close>

text \<open>The destructor returns the members as it leaves them, and the trace.\<close>

definition Tensor_destructor :: "Tensor \<Rightarrow> event list \<Rightarrow> Tensor \<times> event list" where
  "Tensor_destructor t tr =
     (let (t1, tr1) =
            (if m_state t = Own
             then (case recall_data t tr of (_, t', tr') \<Rightarrow> (t', tr'))
             else (t, tr))
      in (case m_file t1 of
            Some f \<Rightarrow>
              if \<not> enable_mmap f \<and> m_data t1 \<noteq> nullptr
              then (t1, tr1 @ [FreeDevice (m_data t1)])
              else (t1, tr1)
          | None \<Rightarrow> (t1, tr1)))"

subsection \<open>Sequences of operations\<close>

datatype operation = Materialize | Release

fun run :: "Runtime \<Rightarrow> operation list \<Rightarrow> Tensor \<Rightarrow> event list \<Rightarrow> Tensor \<times> event list" where
  "run rt [] t tr = (t, tr)"
| "run rt (Materialize # ops) t tr =
     (case prepare_data rt t tr of (_, t', tr') \<Rightarrow> run rt ops t' tr')"
| "run rt (Release # ops) t tr =
     (case recall_data t tr of (_, t', tr') \<Rightarrow> run rt ops t' tr')"

text \<open>
  The whole life of a tensor: a sequence of operations, then the destructor. The
  result is the trace when destruction completes.
\<close>

definition lifetime :: "Runtime \<Rightarrow> operation list \<Rightarrow> Tensor \<Rightarrow> event list \<Rightarrow> event list" where
  "lifetime rt ops t tr =
     (case run rt ops t tr of (t1, tr1) \<Rightarrow> snd (Tensor_destructor t1 tr1))"

subsection \<open>Concrete collaborators\<close>

text \<open>
  An allocator that never hands out an address twice, a mappable and an unmappable
  file, a copy engine that succeeds and one that fails, and the block constants of a
  float scale shared by 32 packed elements.
\<close>

definition bump_allocate :: "event list \<Rightarrow> nat \<Rightarrow> ptr" where
  "bump_allocate tr n = 4096 + sum_list (map fst (allocate_calls tr))"

definition gpu_device :: Device where
  "gpu_device = \<lparr>device_type = GPU, allocate = bump_allocate\<rparr>"

definition cpu_device :: Device where
  "cpu_device = \<lparr>device_type = CPU, allocate = bump_allocate\<rparr>"

definition mmap_file :: InputFile where
  "mmap_file = \<lparr>enable_mmap = True, get_mmap_data = (\<lambda>tr len off. 1048576 + off)\<rparr>"

definition read_file :: InputFile where
  "read_file = \<lparr>enable_mmap = False, get_mmap_data = (\<lambda>tr len off. nullptr)\<rparr>"

definition good_runtime :: Runtime where
  "good_runtime = \<lparr>cudaMemcpy = (\<lambda>tr dst src n. cudaSuccess), new_float = (\<lambda>tr n. 8192)\<rparr>"

definition failing_runtime :: Runtime where
  "failing_runtime =
     \<lparr>cudaMemcpy = (\<lambda>tr dst src n. cudaErrorCode 1), new_float = (\<lambda>tr n. 8192)\<rparr>"

definition block_constants :: kernel_define where
  "block_constants = \<lparr>QK40 = 32, QK80 = 32, sizeof_BlockQ40 = 20, sizeof_BlockQ80 = 36\<rparr>"

text \<open>A tensor as constructed: no handle, state \<open>OutSide\<close>, not shared; 40 bytes long.\<close>

definition new_tensor :: "Device \<Rightarrow> InputFile option \<Rightarrow> Tensor" where
  "new_tensor dev file =
     \<lparr>m_data = nullptr, m_state = OutSide, m_shared = False, m_device = dev,
      m_file = file, m_file_offset = 256, length_in_byte = 40\<rparr>"

section \<open>Properties\<close>

subsection \<open>Auxiliary facts\<close>

lemma prepare_data_noop:
  "m_data t \<noteq> nullptr \<or> m_state t \<noteq> OutSide \<Longrightarrow>
   prepare_data rt t tr = (Own, t\<lparr>m_state := Own\<rparr>, tr)"
  by (auto simp: prepare_data_def)

lemma prepare_data_state: "m_state (fst (snd (prepare_data rt t tr))) = Own"
  by (simp add: prepare_data_def Let_def split: prod.splits)

lemma prepare_data_own: "m_state t = Own \<Longrightarrow> prepare_data rt t tr = (Own, t, tr)"
proof -
  assume own: "m_state t = Own"
  then have "prepare_data rt t tr = (Own, t\<lparr>m_state := Own\<rparr>, tr)"
    by (simp add: prepare_data_noop)
  moreover have "t\<lparr>m_state := Own\<rparr> = t"
    using own by simp
  ultimately show ?thesis by simp
qed

lemma recall_data_shared: "m_shared t \<Longrightarrow> recall_data t tr = (m_state t, t, tr)"
  by (simp add: recall_data_def)

text \<open>A shared tensor in state \<open>Own\<close> is a fixed point of both operations.\<close>

lemma run_shared_own:
  "m_shared t \<Longrightarrow> m_state t = Own \<Longrightarrow> run rt ops t tr = (t, tr)"
proof (induction ops)
  case Nil
  then show ?case by simp
next
  case (Cons x ops)
  then show ?case
    by (cases x) (simp_all add: prepare_data_own recall_data_shared)
qed

subsection \<open>Materialization is idempotent\<close>

text \<open>
  C3. If the handle is already non-null or the state is already not \<open>OutSide\<close>,
  \<open>prepare_data\<close> only sets the state to \<open>Own\<close>: the handle is the one it found and
  the trace is the one it found, so there was no allocation, no file read and no
  copy. A second \<open>prepare_data\<close> right after a first changes neither the tensor nor the
  trace, so the handle is the same.
\<close>

theorem prepare_data_idempotent:
  "(m_data t \<noteq> nullptr \<or> m_state t \<noteq> OutSide \<longrightarrow>
      prepare_data rt t tr = (Own, t\<lparr>m_state := Own\<rparr>, tr)) \<and>
   (case prepare_data rt t tr of
      (s1, t1, tr1) \<Rightarrow>
        prepare_data rt t1 tr1 = (Own, t1, tr1) \<and>
        m_data (fst (snd (prepare_data rt t1 tr1))) = m_data t1)"
proof -
  have first: "m_data t \<noteq> nullptr \<or> m_state t \<noteq> OutSide \<longrightarrow>
      prepare_data rt t tr = (Own, t\<lparr>m_state := Own\<rparr>, tr)"
    using prepare_data_noop by blast
  obtain s1 t1 tr1 where p: "prepare_data rt t tr = (s1, t1, tr1)"
    by (cases "prepare_data rt t tr")
  have "m_state t1 = Own"
    using prepare_data_state [of rt t tr] p by simp
  then have second: "prepare_data rt t1 tr1 = (Own, t1, tr1)"
    by (rule prepare_data_own)
  show ?thesis
    using first second p by simp
qed

theorem prepare_data_idempotent_witness:
  "prepare_data good_runtime ((new_tensor gpu_device None)\<lparr>m_data := 4096\<rparr>) [] =
     (Own, (new_tensor gpu_device None)\<lparr>m_data := 4096, m_state := Own\<rparr>, []) \<and>
   prepare_data good_runtime (new_tensor gpu_device None) [] =
     (Own, (new_tensor gpu_device None)\<lparr>m_data := 4096, m_state := Own\<rparr>,
      [Allocate 40 4096]) \<and>
   prepare_data good_runtime
       ((new_tensor gpu_device None)\<lparr>m_data := 4096, m_state := Own\<rparr>) [Allocate 40 4096] =
     (Own, (new_tensor gpu_device None)\<lparr>m_data := 4096, m_state := Own\<rparr>,
      [Allocate 40 4096])"
  using prepare_data_idempotent
      [of "(new_tensor gpu_device None)\<lparr>m_data := 4096\<rparr>" good_runtime "[]"]
    prepare_data_idempotent [of "new_tensor gpu_device None" good_runtime "[]"]
  by (simp add: prepare_data_def new_tensor_def gpu_device_def bump_allocate_def
      allocate_calls_def)

subsection \<open>Binding external memory\<close>

text \<open>
  C5. \<open>set_shared_memory\<close> fails with the fatal assertion exactly when the pointer is
  non-null and the size is below \<open>length_in_byte\<close>; otherwise it sets the handle to
  the pointer, the state to \<open>Own\<close> and the shared flag. A tensor of 10 elements of
  \<open>Float32\<close> is 40 bytes long; binding a non-null pointer to it succeeds with size 40
  and fails with size 39.
\<close>

theorem set_shared_memory_contract:
  "((\<exists>e. set_shared_memory t p sz = Inl e) \<longleftrightarrow> (p \<noteq> nullptr \<and> sz < length_in_byte t)) \<and>
   (\<not> (p \<noteq> nullptr \<and> sz < length_in_byte t) \<longrightarrow>
      set_shared_memory t p sz = Inr (t\<lparr>m_data := p, m_state := Own, m_shared := True\<rparr>)) \<and>
   spec_length_in_byte kd Float32 10 = Inr 40 \<and>
   (Inr (length_in_byte t) = spec_length_in_byte kd Float32 10 \<and> p \<noteq> nullptr \<longrightarrow>
      set_shared_memory t p 40 = Inr (t\<lparr>m_data := p, m_state := Own, m_shared := True\<rparr>) \<and>
      set_shared_memory t p 39 =
        Inl (AssertionFailed ''the memory set to tensor is not enough''))"
  by (auto simp: set_shared_memory_def spec_length_in_byte_def)

theorem set_shared_memory_contract_witness:
  "set_shared_memory (new_tensor cpu_device None) 4096 40 =
     Inr ((new_tensor cpu_device None)\<lparr>m_data := 4096, m_state := Own, m_shared := True\<rparr>) \<and>
   set_shared_memory (new_tensor cpu_device None) 4096 39 =
     Inl (AssertionFailed ''the memory set to tensor is not enough'') \<and>
   set_shared_memory (new_tensor cpu_device None) nullptr 39 =
     Inr ((new_tensor cpu_device None)\<lparr>m_data := nullptr, m_state := Own, m_shared := True\<rparr>)"
  using set_shared_memory_contract [of "new_tensor cpu_device None" 4096 40 block_constants]
    set_shared_memory_contract [of "new_tensor cpu_device None" nullptr 39 block_constants]
  by (simp add: new_tensor_def spec_length_in_byte_def)

text \<open>
  C10. Binding the null pointer succeeds for every size and leaves the handle null,
  the state \<open>Own\<close> and the tensor shared. From there \<open>prepare_data\<close> returns \<open>Own\<close>
  and changes neither the tensor nor the trace, and so does every sequence of
  \<open>prepare_data\<close> and \<open>recall_data\<close>: the handle stays null and nothing is allocated.
\<close>

theorem null_binding_is_permanent:
  "set_shared_memory t nullptr sz =
     Inr (t\<lparr>m_data := nullptr, m_state := Own, m_shared := True\<rparr>) \<and>
   prepare_data rt (t\<lparr>m_data := nullptr, m_state := Own, m_shared := True\<rparr>) tr =
     (Own, t\<lparr>m_data := nullptr, m_state := Own, m_shared := True\<rparr>, tr) \<and>
   run rt ops (t\<lparr>m_data := nullptr, m_state := Own, m_shared := True\<rparr>) tr =
     (t\<lparr>m_data := nullptr, m_state := Own, m_shared := True\<rparr>, tr)"
  by (simp add: set_shared_memory_def prepare_data_own run_shared_own)

theorem null_binding_is_permanent_witness:
  "set_shared_memory (new_tensor gpu_device None) nullptr 0 =
     Inr ((new_tensor gpu_device None)\<lparr>m_state := Own, m_shared := True\<rparr>) \<and>
   run good_runtime [Materialize, Release, Materialize]
     ((new_tensor gpu_device None)\<lparr>m_state := Own, m_shared := True\<rparr>) [] =
     ((new_tensor gpu_device None)\<lparr>m_state := Own, m_shared := True\<rparr>, [])"
  using null_binding_is_permanent
      [of "new_tensor gpu_device None" 0 good_runtime "[]" "[Materialize, Release, Materialize]"]
  by (simp add: new_tensor_def set_shared_memory_def prepare_data_def recall_data_def)

subsection \<open>The sizing table\<close>

text \<open>
  C9, as stated, fails: with 32 four-bit elements and a float scale in a block of 20
  bytes, \<open>byte_size(Int4) * block_count(Int4)\<close> is 640, while one block is 20 bytes.
\<close>

theorem sizing_product_counterexample:
  "sizing_product block_constants Int4 = Inr 640 \<and>
   dtype_in_byte block_constants Int4 = Inr 20 \<and>
   sizing_product block_constants Int4 \<noteq> Inr (sizeof_BlockQ40 block_constants)"
  by (simp add: sizing_product_def block_constants_def)

text \<open>
  C9, amended. \<open>dtype_in_byte\<close> alone is the byte size of one block and
  \<open>dtype_block_size\<close> the number of elements in it. The dense dtypes are the six
  listed; each has block count 1 and byte size 4, 2 or 1, so the product is the byte
  size itself. For \<open>Int8\<close> and \<open>Int4\<close> the byte size is the size of the block struct,
  the block count is \<open>QK80\<close> and \<open>QK40\<close>, and the product is the one times the other.
  On any other value both functions fail with the fatal assertion.
\<close>

theorem dtype_sizing:
  "(is_dense d \<longleftrightarrow> d \<in> {Float32, Int32, Float16, Int16, Float8, Uint8}) \<and>
   (is_dense d \<longrightarrow>
      dtype_block_size kd d = Inr 1 \<and> sizing_product kd d = dtype_in_byte kd d \<and>
      dtype_in_byte kd d =
        Inr (if d \<in> {Float32, Int32} then 4 else if d \<in> {Float16, Int16} then 2 else 1)) \<and>
   dtype_in_byte kd Int8 = Inr (sizeof_BlockQ80 kd) \<and>
   dtype_block_size kd Int8 = Inr (QK80 kd) \<and>
   sizing_product kd Int8 = Inr (sizeof_BlockQ80 kd * QK80 kd) \<and>
   dtype_in_byte kd Int4 = Inr (sizeof_BlockQ40 kd) \<and>
   dtype_block_size kd Int4 = Inr (QK40 kd) \<and>
   sizing_product kd Int4 = Inr (sizeof_BlockQ40 kd * QK40 kd) \<and>
   dtype_in_byte kd (Other v) = Inl (AssertionFailed ''No support data type.'') \<and>
   dtype_block_size kd (Other v) = Inl (AssertionFailed ''No support data type.'')"
  by (cases d) (simp_all add: sizing_product_def)

theorem dtype_sizing_witness:
  "is_dense Float16 \<and> dtype_block_size block_constants Float16 = Inr 1 \<and>
   sizing_product block_constants Float16 = Inr 2 \<and>
   dtype_in_byte block_constants Float16 = Inr 2 \<and>
   sizing_product block_constants Int8 = Inr 1152 \<and>
   dtype_in_byte block_constants (Other 9) = Inl (AssertionFailed ''No support data type.'')"
  using dtype_sizing [of Float16 block_constants 9]
  by (simp add: block_constants_def)

subsection \<open>State \<open>OutSide\<close> and the null handle\<close>

lemma prepare_data_keeps:
  "m_shared (fst (snd (prepare_data rt t tr))) = m_shared t \<and>
   m_file (fst (snd (prepare_data rt t tr))) = m_file t"
  by (simp add: prepare_data_def Let_def split: prod.splits option.splits)

lemma recall_data_keeps:
  "m_shared (fst (snd (recall_data t tr))) = m_shared t \<and>
   m_file (fst (snd (recall_data t tr))) = m_file t"
  by (simp add: recall_data_def Let_def split: prod.splits)

lemma recall_data_invariant:
  "\<not> m_shared t \<Longrightarrow> m_file t = None \<Longrightarrow> (m_state t = OutSide \<longrightarrow> m_data t = nullptr) \<Longrightarrow>
   m_data (fst (snd (recall_data t tr))) = nullptr"
  by (cases "m_state t") (simp_all add: recall_data_def)

lemma run_invariant:
  "\<not> m_shared t \<Longrightarrow> m_file t = None \<Longrightarrow> (m_state t = OutSide \<longrightarrow> m_data t = nullptr) \<Longrightarrow>
   m_state (fst (run rt ops t tr)) = OutSide \<longrightarrow> m_data (fst (run rt ops t tr)) = nullptr"
proof (induction ops arbitrary: t tr)
  case Nil
  then show ?case by simp
next
  case (Cons x ops)
  show ?case
  proof (cases x)
    case Materialize
    obtain s1 t1 tr1 where p: "prepare_data rt t tr = (s1, t1, tr1)"
      by (cases "prepare_data rt t tr")
    have "\<not> m_shared t1" "m_file t1 = None" "m_state t1 = Own"
      using prepare_data_keeps [of rt t tr] prepare_data_state [of rt t tr] p Cons.prems
      by simp_all
    then have "m_state (fst (run rt ops t1 tr1)) = OutSide \<longrightarrow>
        m_data (fst (run rt ops t1 tr1)) = nullptr"
      by (intro Cons.IH) simp_all
    then show ?thesis
      using Materialize p by simp
  next
    case Release
    obtain s1 t1 tr1 where p: "recall_data t tr = (s1, t1, tr1)"
      by (cases "recall_data t tr")
    have "\<not> m_shared t1" "m_file t1 = None" "m_data t1 = nullptr"
      using recall_data_keeps [of t tr] recall_data_invariant [of t tr] p Cons.prems
      by simp_all
    then have "m_state (fst (run rt ops t1 tr1)) = OutSide \<longrightarrow>
        m_data (fst (run rt ops t1 tr1)) = nullptr"
      by (intro Cons.IH) simp_all
    then show ?thesis
      using Release p by simp
  qed
qed

text \<open>
  C2, as stated, fails: a tensor that is not shared, on a host device, backed by a
  mappable file, is materialized and released. The release sets the state to
  \<open>OutSide\<close> and keeps the mapped pointer as the handle.
\<close>

theorem release_keeps_file_data_counterexample:
  "\<not> m_shared (fst (run good_runtime [Materialize, Release]
        (new_tensor cpu_device (Some mmap_file)) [])) \<and>
   m_state (fst (run good_runtime [Materialize, Release]
        (new_tensor cpu_device (Some mmap_file)) [])) = OutSide \<and>
   m_data (fst (run good_runtime [Materialize, Release]
        (new_tensor cpu_device (Some mmap_file)) [])) = 1048832 \<and>
   m_data (fst (run good_runtime [Materialize, Release]
        (new_tensor cpu_device (Some mmap_file)) [])) \<noteq> nullptr"
  by (simp add: prepare_data_def recall_data_def new_tensor_def cpu_device_def mmap_file_def)

text \<open>
  C2, amended. For a tensor that is not shared and has no file backing, if
  \<open>OutSide\<close> implies a null handle before a sequence of \<open>prepare_data\<close> and
  \<open>recall_data\<close>, it does after it, and \<open>recall_data\<close> leaves the handle null. On a
  tensor that is not shared and has file backing, \<open>recall_data\<close> sets the state to
  \<open>OutSide\<close> and changes nothing else: the handle stays what it was and nothing is
  freed.
\<close>

theorem outside_implies_null:
  "(\<not> m_shared t \<and> m_file t = None \<and> (m_state t = OutSide \<longrightarrow> m_data t = nullptr) \<longrightarrow>
      (m_state (fst (run rt ops t tr)) = OutSide \<longrightarrow>
         m_data (fst (run rt ops t tr)) = nullptr) \<and>
      m_data (fst (snd (recall_data t tr))) = nullptr) \<and>
   (\<not> m_shared t \<and> m_file t \<noteq> None \<longrightarrow>
      recall_data t tr = (OutSide, t\<lparr>m_state := OutSide\<rparr>, tr))"
proof -
  have "\<not> m_shared t \<and> m_file t \<noteq> None \<longrightarrow>
      recall_data t tr = (OutSide, t\<lparr>m_state := OutSide\<rparr>, tr)"
    by (simp add: recall_data_def)
  then show ?thesis
    using run_invariant [of t rt ops tr] recall_data_invariant [of t tr] by blast
qed

theorem outside_implies_null_witness:
  "m_state (fst (run good_runtime [Materialize, Release, Materialize, Release]
      (new_tensor cpu_device None) [])) = OutSide \<and>
   m_data (fst (run good_runtime [Materialize, Release, Materialize, Release]
      (new_tensor cpu_device None) [])) = nullptr \<and>
   recall_data ((new_tensor cpu_device (Some read_file))\<lparr>m_data := 4096, m_state := Own\<rparr>) [] =
     (OutSide, (new_tensor cpu_device (Some read_file))\<lparr>m_data := 4096, m_state := OutSide\<rparr>, [])"
  using outside_implies_null [of "new_tensor cpu_device None" good_runtime
      "[Materialize, Release, Materialize, Release]" "[]"]
    outside_implies_null
      [of "(new_tensor cpu_device (Some read_file))\<lparr>m_data := 4096, m_state := Own\<rparr>" good_runtime "[]" "[]"]
  by (simp add: prepare_data_def recall_data_def new_tensor_def cpu_device_def Let_def
      bump_allocate_def allocate_calls_def)

subsection \<open>Materialize, release, materialize\<close>

text \<open>
  C6. On a tensor that is not shared and has no file backing, \<open>recall_data\<close> calls
  \<open>free_device\<close> on the handle and nulls it exactly when the handle is non-null and
  the state is \<open>Own\<close>; in every case it returns \<open>OutSide\<close>. Starting from such a
  tensor as constructed (null handle, state \<open>OutSide\<close>) with a device whose first
  allocation yields a non-null handle \<open>p1\<close>, the sequence materialize, release,
  materialize adds exactly three calls to the trace: the allocation of \<open>p1\<close>, the
  free of \<open>p1\<close>, and a second allocation, whose result \<open>p2\<close> is the final handle.
\<close>

theorem round_trip_balanced:
  "(\<not> m_shared t \<and> m_file t = None \<longrightarrow>
      recall_data t tr =
        (if m_data t \<noteq> nullptr \<and> m_state t = Own
         then (OutSide, t\<lparr>m_data := nullptr, m_state := OutSide\<rparr>, tr @ [FreeDevice (m_data t)])
         else (OutSide, t\<lparr>m_state := OutSide\<rparr>, tr))) \<and>
   (\<not> m_shared t \<and> m_file t = None \<and> m_data t = nullptr \<and> m_state t = OutSide \<and>
    p1 = allocate (m_device t) tr (length_in_byte t) \<and> p1 \<noteq> nullptr \<and>
    p2 = allocate (m_device t) (tr @ [Allocate (length_in_byte t) p1, FreeDevice p1])
           (length_in_byte t) \<longrightarrow>
      run rt [Materialize] t tr =
        (t\<lparr>m_data := p1, m_state := Own\<rparr>, tr @ [Allocate (length_in_byte t) p1]) \<and>
      run rt [Materialize, Release] t tr =
        (t\<lparr>m_data := nullptr, m_state := OutSide\<rparr>,
         tr @ [Allocate (length_in_byte t) p1, FreeDevice p1]) \<and>
      run rt [Materialize, Release, Materialize] t tr =
        (t\<lparr>m_data := p2, m_state := Own\<rparr>,
         tr @ [Allocate (length_in_byte t) p1, FreeDevice p1, Allocate (length_in_byte t) p2]) \<and>
      allocate_calls (snd (run rt [Materialize, Release, Materialize] t tr)) =
        allocate_calls tr @ [(length_in_byte t, p1), (length_in_byte t, p2)] \<and>
      free_calls (snd (run rt [Materialize, Release, Materialize] t tr)) =
        free_calls tr @ [p1])"
  by (simp add: prepare_data_def recall_data_def allocate_calls_def free_calls_def Let_def)

theorem round_trip_balanced_witness:
  "run good_runtime [Materialize, Release, Materialize] (new_tensor gpu_device None) [] =
     ((new_tensor gpu_device None)\<lparr>m_data := 4136, m_state := Own\<rparr>,
      [Allocate 40 4096, FreeDevice 4096, Allocate 40 4136]) \<and>
   recall_data ((new_tensor gpu_device None)\<lparr>m_data := 4096, m_state := Own\<rparr>) [Allocate 40 4096] =
     (OutSide, (new_tensor gpu_device None)\<lparr>m_data := nullptr, m_state := OutSide\<rparr>,
      [Allocate 40 4096, FreeDevice 4096])"
  using round_trip_balanced [of "new_tensor gpu_device None" "[]" 4096 4136 good_runtime]
    round_trip_balanced [of "(new_tensor gpu_device None)\<lparr>m_data := 4096, m_state := Own\<rparr>"
      "[Allocate 40 4096]" 0 0 good_runtime]
  by (simp add: new_tensor_def gpu_device_def bump_allocate_def allocate_calls_def Let_def)

subsection \<open>A failing copy\<close>

text \<open>
  C7. \<open>prepare_data\<close> copies to the accelerator on two paths, and on both it returns
  \<open>Own\<close> with the allocated buffer as the handle and frees nothing, whatever the copy
  returned. On the path of a file that cannot be mapped the result of \<^verbatim>\<open>cudaMemcpy\<close>
  is discarded: the calls are the same five for a failed copy as for a successful
  one, and the log line is not among them. On the path of a mapped file the result is
  inspected, and the log line follows the copy exactly when the copy failed.
\<close>

theorem staging_copy_failure_not_logged:
  "(m_data t = nullptr \<and> m_state t = OutSide \<and> m_file t = Some f \<and> \<not> enable_mmap f \<and>
    device_type (m_device t) = GPU \<and>
    d = allocate (m_device t) tr (length_in_byte t) \<and>
    tp = new_float rt (tr @ [Allocate (length_in_byte t) d]) (length_in_byte t) \<and>
    err = cudaMemcpy rt
            (tr @ [Allocate (length_in_byte t) d, NewArray (length_in_byte t * 4) tp,
                   ReadData tp (length_in_byte t) (m_file_offset t)])
            d tp (length_in_byte t) \<longrightarrow>
      prepare_data rt t tr =
        (Own, t\<lparr>m_data := d, m_state := Own\<rparr>,
         tr @ [Allocate (length_in_byte t) d, NewArray (length_in_byte t * 4) tp,
               ReadData tp (length_in_byte t) (m_file_offset t),
               CudaMemcpy d tp (length_in_byte t) err, DeleteArray tp]) \<and>
      Printf \<notin> set (drop (length tr) (snd (snd (prepare_data rt t tr)))) \<and>
      free_calls (snd (snd (prepare_data rt t tr))) = free_calls tr) \<and>
   (m_data t = nullptr \<and> m_state t = OutSide \<and> m_file t = Some f \<and> enable_mmap f \<and>
    device_type (m_device t) = GPU \<and>
    src = get_mmap_data f tr (length_in_byte t) (m_file_offset t) \<and>
    d = allocate (m_device t) (tr @ [GetMmapData (length_in_byte t) (m_file_offset t) src])
          (length_in_byte t) \<and>
    err = cudaMemcpy rt
            (tr @ [GetMmapData (length_in_byte t) (m_file_offset t) src,
                   Allocate (length_in_byte t) d])
            d src (length_in_byte t) \<longrightarrow>
      prepare_data rt t tr =
        (Own, t\<lparr>m_data := d, m_state := Own\<rparr>,
         tr @ [GetMmapData (length_in_byte t) (m_file_offset t) src,
               Allocate (length_in_byte t) d,
               CudaMemcpy d src (length_in_byte t) err] @
              (if err \<noteq> cudaSuccess then [Printf] else [])) \<and>
      (Printf \<in> set (drop (length tr) (snd (snd (prepare_data rt t tr)))) \<longleftrightarrow>
         err \<noteq> cudaSuccess) \<and>
      free_calls (snd (snd (prepare_data rt t tr))) = free_calls tr)"
  by (simp add: prepare_data_def Let_def sizeof_float_def free_calls_def)

theorem staging_copy_failure_not_logged_witness:
  "prepare_data failing_runtime (new_tensor gpu_device (Some read_file)) [] =
     (Own, (new_tensor gpu_device (Some read_file))\<lparr>m_data := 4096, m_state := Own\<rparr>,
      [Allocate 40 4096, NewArray 160 8192, ReadData 8192 40 256,
       CudaMemcpy 4096 8192 40 (cudaErrorCode 1), DeleteArray 8192]) \<and>
   Printf \<notin> set (snd (snd (prepare_data failing_runtime
       (new_tensor gpu_device (Some read_file)) []))) \<and>
   prepare_data failing_runtime (new_tensor gpu_device (Some mmap_file)) [] =
     (Own, (new_tensor gpu_device (Some mmap_file))\<lparr>m_data := 4096, m_state := Own\<rparr>,
      [GetMmapData 40 256 1048832, Allocate 40 4096,
       CudaMemcpy 4096 1048832 40 (cudaErrorCode 1), Printf])"
  using staging_copy_failure_not_logged [of "new_tensor gpu_device (Some read_file)" read_file
      4096 "[]" 8192 failing_runtime "cudaErrorCode 1" 0]
    staging_copy_failure_not_logged [of "new_tensor gpu_device (Some mmap_file)" mmap_file
      4096 "[]" 8192 failing_runtime "cudaErrorCode 1" 1048832]
  by (simp add: new_tensor_def gpu_device_def read_file_def mmap_file_def
      failing_runtime_def bump_allocate_def allocate_calls_def)

subsection \<open>The staging buffer\<close>

text \<open>
  C8. On the accelerator path of a file that cannot be mapped, \<open>prepare_data\<close> makes
  five calls: it allocates the device buffer, requests the staging buffer with
  \<^verbatim>\<open>new float[length]\<close>, reads \<open>length\<close> bytes at the file offset into it, copies
  \<open>length\<close> bytes from it to the device buffer, and deletes it, whatever the copy
  returned. The staging request is for \<open>length\<close> elements of four bytes each:
  four times \<open>length_in_byte\<close> bytes, not \<open>length_in_byte\<close> bytes.
\<close>

theorem staging_buffer_size:
  "m_data t = nullptr \<and> m_state t = OutSide \<and> m_file t = Some f \<and> \<not> enable_mmap f \<and>
   device_type (m_device t) = GPU \<and>
   d = allocate (m_device t) tr (length_in_byte t) \<and>
   tp = new_float rt (tr @ [Allocate (length_in_byte t) d]) (length_in_byte t) \<and>
   err = cudaMemcpy rt
           (tr @ [Allocate (length_in_byte t) d, NewArray (length_in_byte t * 4) tp,
                  ReadData tp (length_in_byte t) (m_file_offset t)])
           d tp (length_in_byte t) \<longrightarrow>
     prepare_data rt t tr =
       (Own, t\<lparr>m_data := d, m_state := Own\<rparr>,
        tr @ [Allocate (length_in_byte t) d, NewArray (length_in_byte t * 4) tp,
              ReadData tp (length_in_byte t) (m_file_offset t),
              CudaMemcpy d tp (length_in_byte t) err, DeleteArray tp])"
  by (simp add: prepare_data_def Let_def sizeof_float_def)

theorem staging_buffer_size_witness:
  "prepare_data good_runtime (new_tensor gpu_device (Some read_file)) [] =
     (Own, (new_tensor gpu_device (Some read_file))\<lparr>m_data := 4096, m_state := Own\<rparr>,
      [Allocate 40 4096, NewArray 160 8192, ReadData 8192 40 256,
       CudaMemcpy 4096 8192 40 cudaSuccess, DeleteArray 8192]) \<and>
   length_in_byte (new_tensor gpu_device (Some read_file)) = 40"
  using staging_buffer_size [of "new_tensor gpu_device (Some read_file)" read_file 4096 "[]"
      8192 good_runtime cudaSuccess]
  by (simp add: new_tensor_def gpu_device_def read_file_def good_runtime_def
      bump_allocate_def allocate_calls_def)

subsection \<open>Frees over the life of a tensor\<close>

lemma run_file_backed:
  "m_file t \<noteq> None \<Longrightarrow> \<not> m_shared t \<Longrightarrow> m_data t \<noteq> nullptr \<Longrightarrow>
   \<exists>s. run rt ops t tr = (t\<lparr>m_state := s\<rparr>, tr)"
proof (induction ops arbitrary: t)
  case Nil
  have "t = t\<lparr>m_state := m_state t\<rparr>" by simp
  then show ?case by (metis run.simps(1))
next
  case (Cons x ops)
  show ?case
  proof (cases x)
    case Materialize
    have "prepare_data rt t tr = (Own, t\<lparr>m_state := Own\<rparr>, tr)"
      using Cons.prems by (simp add: prepare_data_noop)
    moreover have "\<exists>s. run rt ops (t\<lparr>m_state := Own\<rparr>) tr = (t\<lparr>m_state := Own\<rparr>\<lparr>m_state := s\<rparr>, tr)"
      using Cons.prems by (intro Cons.IH) simp_all
    ultimately show ?thesis
      using Materialize by simp
  next
    case Release
    have "recall_data t tr = (OutSide, t\<lparr>m_state := OutSide\<rparr>, tr)"
      using Cons.prems by (auto simp: recall_data_def)
    moreover have "\<exists>s. run rt ops (t\<lparr>m_state := OutSide\<rparr>) tr = (t\<lparr>m_state := OutSide\<rparr>\<lparr>m_state := s\<rparr>, tr)"
      using Cons.prems by (intro Cons.IH) simp_all
    ultimately show ?thesis
      using Release by simp
  qed
qed

lemma destructor_mapped:
  "m_file t = Some f \<Longrightarrow> enable_mmap f \<Longrightarrow> \<not> m_shared t \<Longrightarrow>
   snd (Tensor_destructor t tr) = tr"
  by (simp add: Tensor_destructor_def recall_data_def Let_def)

text \<open>
  C1. A tensor that is not shared, backed by a mappable file, on an accelerator
  device, is materialized from its constructed state, and the device returns a
  non-null buffer \<open>d\<close>. Whatever sequence of operations follows, when the destructor
  has run the trace holds one more allocation, that of \<open>d\<close>, and no more frees than
  before: \<open>d\<close> is never freed.
\<close>

theorem mapped_accelerator_buffer_leaks:
  "m_file t = Some f \<and> enable_mmap f \<and> device_type (m_device t) = GPU \<and> \<not> m_shared t \<and>
   m_data t = nullptr \<and> m_state t = OutSide \<and>
   src = get_mmap_data f tr (length_in_byte t) (m_file_offset t) \<and>
   d = allocate (m_device t) (tr @ [GetMmapData (length_in_byte t) (m_file_offset t) src])
         (length_in_byte t) \<and>
   d \<noteq> nullptr \<longrightarrow>
     m_data (fst (snd (prepare_data rt t tr))) = d \<and>
     allocate_calls (lifetime rt (Materialize # ops) t tr) =
       allocate_calls tr @ [(length_in_byte t, d)] \<and>
     free_calls (lifetime rt (Materialize # ops) t tr) = free_calls tr"
proof (intro impI)
  assume a: "m_file t = Some f \<and> enable_mmap f \<and> device_type (m_device t) = GPU \<and> \<not> m_shared t \<and>
   m_data t = nullptr \<and> m_state t = OutSide \<and>
   src = get_mmap_data f tr (length_in_byte t) (m_file_offset t) \<and>
   d = allocate (m_device t) (tr @ [GetMmapData (length_in_byte t) (m_file_offset t) src])
         (length_in_byte t) \<and>
   d \<noteq> nullptr"
  obtain s1 t1 tr1 where p: "prepare_data rt t tr = (s1, t1, tr1)"
    by (cases "prepare_data rt t tr")
  have t1: "m_data t1 = d" "m_file t1 = Some f" "\<not> m_shared t1"
    using a p by (auto simp: prepare_data_def Let_def)
  have tr1: "allocate_calls tr1 = allocate_calls tr @ [(length_in_byte t, d)]"
    "free_calls tr1 = free_calls tr"
    using a p by (auto simp: prepare_data_def Let_def allocate_calls_def free_calls_def)
  obtain s where r: "run rt ops t1 tr1 = (t1\<lparr>m_state := s\<rparr>, tr1)"
    using run_file_backed [of t1 rt ops tr1] t1 a by auto
  have "snd (Tensor_destructor (t1\<lparr>m_state := s\<rparr>) tr1) = tr1"
    using t1 a by (intro destructor_mapped [of _ f]) simp_all
  then have "lifetime rt (Materialize # ops) t tr = tr1"
    using p r by (simp add: lifetime_def)
  then show "m_data (fst (snd (prepare_data rt t tr))) = d \<and>
     allocate_calls (lifetime rt (Materialize # ops) t tr) =
       allocate_calls tr @ [(length_in_byte t, d)] \<and>
     free_calls (lifetime rt (Materialize # ops) t tr) = free_calls tr"
    using t1 tr1 p by simp
qed

theorem mapped_accelerator_buffer_leaks_witness:
  "lifetime good_runtime [Materialize] (new_tensor gpu_device (Some mmap_file)) [] =
     [GetMmapData 40 256 1048832, Allocate 40 4096, CudaMemcpy 4096 1048832 40 cudaSuccess] \<and>
   lifetime good_runtime [Materialize, Release] (new_tensor gpu_device (Some mmap_file)) [] =
     [GetMmapData 40 256 1048832, Allocate 40 4096, CudaMemcpy 4096 1048832 40 cudaSuccess] \<and>
   allocate_calls (lifetime good_runtime [Materialize] (new_tensor gpu_device (Some mmap_file)) [])
     = [(40, 4096)] \<and>
   free_calls (lifetime good_runtime [Materialize] (new_tensor gpu_device (Some mmap_file)) [])
     = []"
  using mapped_accelerator_buffer_leaks [of "new_tensor gpu_device (Some mmap_file)" mmap_file
      1048832 "[]" 4096 good_runtime "[]"]
  by (simp add: lifetime_def Tensor_destructor_def prepare_data_def recall_data_def Let_def
      new_tensor_def gpu_device_def mmap_file_def good_runtime_def bump_allocate_def
      allocate_calls_def free_calls_def)

text \<open>
  C4. After a successful \<open>set_shared_memory t p sz\<close> no sequence of \<open>prepare_data\<close>
  and \<open>recall_data\<close> changes the tensor or the trace. The destructor then calls
  \<open>free_device\<close> on \<open>p\<close> when the tensor has a file that cannot be mapped and \<open>p\<close> is
  non-null, and calls nothing otherwise.
\<close>

theorem destructor_frees_shared_pointer:
  "set_shared_memory t p sz = Inr t' \<longrightarrow>
     t' = t\<lparr>m_data := p, m_state := Own, m_shared := True\<rparr> \<and>
     run rt ops t' tr = (t', tr) \<and>
     lifetime rt ops t' tr =
       (case m_file t of
          Some f \<Rightarrow> if \<not> enable_mmap f \<and> p \<noteq> nullptr then tr @ [FreeDevice p] else tr
        | None \<Rightarrow> tr)"
proof (intro impI)
  assume b: "set_shared_memory t p sz = Inr t'"
  then have t': "t' = t\<lparr>m_data := p, m_state := Own, m_shared := True\<rparr>"
    by (auto simp: set_shared_memory_def split: if_splits)
  then have r: "run rt ops t' tr = (t', tr)"
    by (simp add: run_shared_own)
  have "snd (Tensor_destructor t' tr) =
       (case m_file t of
          Some f \<Rightarrow> if \<not> enable_mmap f \<and> p \<noteq> nullptr then tr @ [FreeDevice p] else tr
        | None \<Rightarrow> tr)"
    using t' by (simp add: Tensor_destructor_def recall_data_def split: option.splits)
  then show "t' = t\<lparr>m_data := p, m_state := Own, m_shared := True\<rparr> \<and>
     run rt ops t' tr = (t', tr) \<and>
     lifetime rt ops t' tr =
       (case m_file t of
          Some f \<Rightarrow> if \<not> enable_mmap f \<and> p \<noteq> nullptr then tr @ [FreeDevice p] else tr
        | None \<Rightarrow> tr)"
    using t' r by (simp add: lifetime_def)
qed

theorem destructor_frees_shared_pointer_witness:
  "set_shared_memory (new_tensor cpu_device (Some read_file)) 20480 64 =
     Inr ((new_tensor cpu_device (Some read_file))
            \<lparr>m_data := 20480, m_state := Own, m_shared := True\<rparr>) \<and>
   lifetime good_runtime [Release]
     ((new_tensor cpu_device (Some read_file))\<lparr>m_data := 20480, m_state := Own, m_shared := True\<rparr>)
     [] = [FreeDevice 20480]"
  using destructor_frees_shared_pointer [of "new_tensor cpu_device (Some read_file)" 20480 64
      "(new_tensor cpu_device (Some read_file))\<lparr>m_data := 20480, m_state := Own, m_shared := True\<rparr>"
      good_runtime "[Release]" "[]"]
  by (simp add: set_shared_memory_def new_tensor_def read_file_def)

end
